theory Spec2Isabelle
  imports Main
begin

section \<open>Data model (review-session.ts)\<close>

text \<open>
  The two interfaces of review-session.ts. Times are the millisecond readings of
  \<^verbatim>\<open>Date.now()\<close>. The optional field \<^verbatim>\<open>context?\<close> is a \<open>string option\<close>.
  The fields \<^verbatim>\<open>id\<close> and \<^verbatim>\<open>context\<close> carry a prime, since both names are taken.
\<close>

record ReviewEntry =
  id' :: string
  timestamp :: nat
  code :: string
  language :: string
  review :: string
  context' :: "string option"

record SessionState =
  reviews :: "ReviewEntry list"
  createdAt :: nat
  lastAccessedAt :: nat

section \<open>The environment of a Durable Object\<close>

text \<open>
  Everything the code reads from outside is an oracle, indexed by the number of
  readings made so far: the \<open>n\<close>-th reading of the clock, the \<open>n\<close>-th identifier drawn
  from \<^verbatim>\<open>crypto.randomUUID()\<close>, and whether the \<open>n\<close>-th operation on the storage rejects
  (a \<^verbatim>\<open>get\<close> or a \<^verbatim>\<open>put\<close>). The router adds the \<open>n\<close>-th call of the inference service, given
  the system and the user message, and whether the static assets are bound.
\<close>

text \<open>
  What \<^verbatim>\<open>env.AI.run\<close> gives: it rejects, or it resolves to an object of which the code
  reads the field \<^verbatim>\<open>response\<close> (absent, or a string) and \<^verbatim>\<open>JSON.stringify\<close>.
\<close>

datatype ai_result = AiError string | AiResult "string option" string

record env =
  Date_now :: "nat \<Rightarrow> nat"
  randomUUID :: "nat \<Rightarrow> string"
  storage_get_fails :: "nat \<Rightarrow> bool"
  storage_put_fails :: "nat \<Rightarrow> bool"
  AI_run :: "nat \<Rightarrow> string \<Rightarrow> string \<Rightarrow> ai_result"
  ASSETS :: bool

datatype error = StorageFailure | SyntaxError | TypeError | InferenceFailure string

text \<open>
  One live \<^verbatim>\<open>ReviewSession\<close> object: its private field \<^verbatim>\<open>this.state\<close>, the value its
  storage holds under the key \<^verbatim>\<open>'state'\<close> (the storage keeps a structured clone, so the
  two never alias), and the counters of the oracles.
\<close>

record world =
  state :: SessionState
  storage :: "SessionState option"
  ticks :: nat
  uuids :: nat
  ios :: nat

type_synonym 'a outcome = "(error + 'a) \<times> world"

definition now :: "env \<Rightarrow> world \<Rightarrow> nat \<times> world" where
  "now E w = (Date_now E (ticks w), w\<lparr>ticks := Suc (ticks w)\<rparr>)"

definition fresh_uuid :: "env \<Rightarrow> world \<Rightarrow> string \<times> world" where
  "fresh_uuid E w = (randomUUID E (uuids w), w\<lparr>uuids := Suc (uuids w)\<rparr>)"

definition storage_get :: "env \<Rightarrow> world \<Rightarrow> (SessionState option) outcome" where
  "storage_get E w =
     (if storage_get_fails E (ios w) then (Inl StorageFailure, w\<lparr>ios := Suc (ios w)\<rparr>)
      else (Inr (storage w), w\<lparr>ios := Suc (ios w)\<rparr>))"

definition storage_put :: "env \<Rightarrow> world \<Rightarrow> unit outcome" where
  "storage_put E w =
     (if storage_put_fails E (ios w) then (Inl StorageFailure, w\<lparr>ios := Suc (ios w)\<rparr>)
      else (Inr (), w\<lparr>storage := Some (state w), ios := Suc (ios w)\<rparr>))"

section \<open>The session store (class ReviewSession)\<close>

text \<open>
  The constructor: an empty list and two readings of the clock. It is given what the
  storage holds and the counters of the host.
\<close>

definition constructor :: "env \<Rightarrow> SessionState option \<Rightarrow> nat \<Rightarrow> nat \<Rightarrow> nat \<Rightarrow> world" where
  "constructor E disk t u i =
     \<lparr>state = \<lparr>reviews = [], createdAt = Date_now E t, lastAccessedAt = Date_now E (Suc t)\<rparr>,
      storage = disk, ticks = Suc (Suc t), uuids = u, ios = i\<rparr>"

definition initialize :: "env \<Rightarrow> world \<Rightarrow> unit outcome" where
  "initialize E w =
     (case storage_get E w of
        (Inl e, w1) \<Rightarrow> (Inl e, w1)
      | (Inr None, w1) \<Rightarrow> (Inr (), w1)
      | (Inr (Some stored), w1) \<Rightarrow>
          (let (t, w2) = now E w1
           in (Inr (), w2\<lparr>state := stored\<lparr>lastAccessedAt := t\<rparr>\<rparr>)))"

definition addReview ::
  "env \<Rightarrow> string \<Rightarrow> string \<Rightarrow> string \<Rightarrow> string option \<Rightarrow> world \<Rightarrow> ReviewEntry outcome" where
  "addReview E c l r cx w =
     (case initialize E w of
        (Inl e, w1) \<Rightarrow> (Inl e, w1)
      | (Inr _, w1) \<Rightarrow>
          (let (u, w2) = fresh_uuid E w1;
               (t, w3) = now E w2;
               entry = \<lparr>id' = u, timestamp = t, code = c, language = l, review = r,
                        context' = cx\<rparr>;
               w4 = w3\<lparr>state := (state w3)\<lparr>reviews := reviews (state w3) @ [entry]\<rparr>\<rparr>;
               (t', w5) = now E w4;
               w6 = w5\<lparr>state := (state w5)\<lparr>lastAccessedAt := t'\<rparr>\<rparr>
           in case storage_put E w6 of
                (Inl e, w7) \<Rightarrow> (Inl e, w7)
              | (Inr _, w7) \<Rightarrow> (Inr entry, w7)))"

definition getReviews :: "env \<Rightarrow> world \<Rightarrow> (ReviewEntry list) outcome" where
  "getReviews E w =
     (case initialize E w of
        (Inl e, w1) \<Rightarrow> (Inl e, w1)
      | (Inr _, w1) \<Rightarrow>
          (let (t, w2) = now E w1;
               w3 = w2\<lparr>state := (state w2)\<lparr>lastAccessedAt := t\<rparr>\<rparr>
           in case storage_put E w3 of
                (Inl e, w4) \<Rightarrow> (Inl e, w4)
              | (Inr _, w4) \<Rightarrow> (Inr (reviews (state w4)), w4)))"

text \<open>\<^verbatim>\<open>find\<close> gives the first entry with the identifier; \<^verbatim>\<open>review || null\<close> is \<open>None\<close>.\<close>

definition getReview :: "env \<Rightarrow> string \<Rightarrow> world \<Rightarrow> (ReviewEntry option) outcome" where
  "getReview E i w =
     (case initialize E w of
        (Inl e, w1) \<Rightarrow> (Inl e, w1)
      | (Inr _, w1) \<Rightarrow> (Inr (find (\<lambda>r. id' r = i) (reviews (state w1))), w1))"

definition getLatestReview :: "env \<Rightarrow> world \<Rightarrow> (ReviewEntry option) outcome" where
  "getLatestReview E w =
     (case initialize E w of
        (Inl e, w1) \<Rightarrow> (Inl e, w1)
      | (Inr _, w1) \<Rightarrow>
          (if length (reviews (state w1)) = 0 then (Inr None, w1)
           else (Inr (Some (reviews (state w1) ! (length (reviews (state w1)) - 1))), w1)))"

record Metadata =
  reviewCount :: nat
  md_createdAt :: nat
  md_lastAccessedAt :: nat

definition getMetadata :: "env \<Rightarrow> world \<Rightarrow> Metadata outcome" where
  "getMetadata E w =
     (case initialize E w of
        (Inl e, w1) \<Rightarrow> (Inl e, w1)
      | (Inr _, w1) \<Rightarrow>
          (Inr \<lparr>reviewCount = length (reviews (state w1)),
                md_createdAt = createdAt (state w1),
                md_lastAccessedAt = lastAccessedAt (state w1)\<rparr>, w1))"

text \<open>\<^verbatim>\<open>clearReviews\<close> is the one method that does not call \<^verbatim>\<open>initialize\<close>.\<close>

definition clearReviews :: "env \<Rightarrow> world \<Rightarrow> unit outcome" where
  "clearReviews E w =
     (let w1 = w\<lparr>state := (state w)\<lparr>reviews := []\<rparr>\<rparr>;
          (t, w2) = now E w1;
          w3 = w2\<lparr>state := (state w2)\<lparr>lastAccessedAt := t\<rparr>\<rparr>
      in storage_put E w3)"

section \<open>The request handler of the object (ReviewSession.fetch)\<close>

text \<open>
  A request to the object: the path of its URL, its method, and what
  \<^verbatim>\<open>request.json()\<close> gives for the body of \<^verbatim>\<open>/add-review\<close> (\<open>None\<close> when the body is not
  JSON). A response is \<^verbatim>\<open>Response.json\<close> of a value, the text \<^verbatim>\<open>Not Found\<close> with status
  404, or the text \<^verbatim>\<open>Error: ...\<close> with status 500.
\<close>

record add_body =
  ab_code :: string
  ab_language :: string
  ab_review :: string
  ab_context :: "string option"

record do_request =
  do_path :: string
  do_method :: string
  do_body :: "add_body option"

datatype do_json =
  JReviews "ReviewEntry list" | JEntry ReviewEntry | JMetadata Metadata | JSuccess

datatype do_response = DoJson do_json | DoNotFound | DoError error

definition ReviewSession_fetch :: "env \<Rightarrow> do_request \<Rightarrow> world \<Rightarrow> do_response \<times> world" where
  "ReviewSession_fetch E rq w =
     (if do_path rq = ''/reviews'' \<and> do_method rq = ''GET'' then
        (case getReviews E w of
           (Inl e, w') \<Rightarrow> (DoError e, w')
         | (Inr rs, w') \<Rightarrow> (DoJson (JReviews rs), w'))
      else if do_path rq = ''/add-review'' \<and> do_method rq = ''POST'' then
        (case do_body rq of
           None \<Rightarrow> (DoError SyntaxError, w)
         | Some b \<Rightarrow>
             (case addReview E (ab_code b) (ab_language b) (ab_review b) (ab_context b) w of
                (Inl e, w') \<Rightarrow> (DoError e, w')
              | (Inr entry, w') \<Rightarrow> (DoJson (JEntry entry), w')))
      else if do_path rq = ''/metadata'' \<and> do_method rq = ''GET'' then
        (case getMetadata E w of
           (Inl e, w') \<Rightarrow> (DoError e, w')
         | (Inr m, w') \<Rightarrow> (DoJson (JMetadata m), w'))
      else if do_path rq = ''/clear'' \<and> do_method rq = ''POST'' then
        (case clearReviews E w of
           (Inl e, w') \<Rightarrow> (DoError e, w')
         | (Inr _, w') \<Rightarrow> (DoJson JSuccess, w'))
      else (DoNotFound, w))"

section \<open>Prompts (prompts.ts)\<close>

definition SYSTEM_PROMPT :: string where
  "SYSTEM_PROMPT =
     ''You are an expert code reviewer with deep knowledge of software engineering best practices, security vulnerabilities, and code quality standards.\<newline>\<newline>Your role is to:\<newline>1. Identify bugs, security vulnerabilities, and potential runtime errors\<newline>2. Suggest improvements for code readability and maintainability\<newline>3. Point out violations of best practices and design patterns\<newline>4. Recommend optimizations where applicable\<newline>5. Explain your findings clearly and constructively\<newline>\<newline>Provide your review in a structured format with:\<newline>- **Summary**: Brief overview of the code quality\<newline>- **Issues Found**: List of problems with severity (Critical/High/Medium/Low)\<newline>- **Suggestions**: Specific improvements with code examples where helpful\<newline>- **Positive Notes**: What the code does well\<newline>\<newline>Be thorough but concise. Focus on actionable feedback.''"

text \<open>A value is falsy when it is absent or the empty string.\<close>

definition falsy :: "string option \<Rightarrow> bool" where
  "falsy x = (x = None \<or> x = Some [])"

text \<open>What a template literal or a string context makes of a value that may be absent.\<close>

definition string_of :: "string option \<Rightarrow> string" where
  "string_of x = (case x of None \<Rightarrow> ''undefined'' | Some s \<Rightarrow> s)"

definition createCodeReviewPrompt :: "string \<Rightarrow> string \<Rightarrow> string option \<Rightarrow> string" where
  "createCodeReviewPrompt c l cx =
     (let prompt = ''Please review the following '' @ l @ '' code:\<newline>\<newline>```'' @ l
                   @ ''\<newline>'' @ c @ ''\<newline>```\<newline>'';
          prompt = (if \<not> falsy cx
                    then prompt @ ''\<newline>Additional context: '' @ string_of cx @ ''\<newline>''
                    else prompt)
      in prompt @ ''\<newline>Provide a comprehensive code review following the format specified in your system prompt.'')"

definition createFollowUpPrompt :: "string \<Rightarrow> string \<Rightarrow> string \<Rightarrow> string" where
  "createFollowUpPrompt previousReview newCode l =
     ''Based on your previous review:\<newline>\<newline>'' @ previousReview
     @ ''\<newline>\<newline>The code has been updated to:\<newline>\<newline>```'' @ l @ ''\<newline>'' @ newCode
     @ ''\<newline>```\<newline>\<newline>Please review the changes and confirm if the previous issues were addressed or if new issues have been introduced.''"

section \<open>The Worker (index.ts)\<close>

text \<open>
  The namespace \<^verbatim>\<open>REVIEW_SESSIONS\<close> holds one object per name: \<open>live\<close> is the field
  \<^verbatim>\<open>this.state\<close> of the instance in memory (\<open>None\<close> when the object is not instantiated,
  so that the next request to it runs the constructor), \<open>disk\<close> is what its storage
  holds. The platform also counts the readings of the oracles and records every call of
  the inference service, as the pair of the system and the user message.
\<close>

record durable =
  live :: "SessionState option"
  disk :: "SessionState option"

record platform =
  objects :: "string \<Rightarrow> durable"
  p_ticks :: nat
  p_uuids :: nat
  p_ios :: nat
  ai_calls :: nat
  ai_log :: "(string \<times> string) list"

definition enter :: "env \<Rightarrow> string \<Rightarrow> platform \<Rightarrow> world" where
  "enter E k p =
     (case live (objects p k) of
        None \<Rightarrow> constructor E (disk (objects p k)) (p_ticks p) (p_uuids p) (p_ios p)
      | Some s \<Rightarrow> \<lparr>state = s, storage = disk (objects p k), ticks = p_ticks p,
                   uuids = p_uuids p, ios = p_ios p\<rparr>)"

definition leave :: "string \<Rightarrow> world \<Rightarrow> platform \<Rightarrow> platform" where
  "leave k w p =
     p\<lparr>objects := (objects p)(k := \<lparr>live = Some (state w), disk = storage w\<rparr>),
       p_ticks := ticks w, p_uuids := uuids w, p_ios := ios w\<rparr>"

text \<open>\<^verbatim>\<open>env.REVIEW_SESSIONS.get(idFromName(k)).fetch(rq)\<close>.\<close>

definition session_fetch ::
  "env \<Rightarrow> string \<Rightarrow> do_request \<Rightarrow> platform \<Rightarrow> do_response \<times> platform" where
  "session_fetch E k rq p =
     (case ReviewSession_fetch E rq (enter E k p) of (resp, w) \<Rightarrow> (resp, leave k w p))"

text \<open>\<^verbatim>\<open>response.json()\<close> rejects on a body that is not JSON: the two text responses.\<close>

definition response_json :: "do_response \<Rightarrow> error + do_json" where
  "response_json resp = (case resp of DoJson j \<Rightarrow> Inr j | _ \<Rightarrow> Inl SyntaxError)"

text \<open>
  An inbound request: method (the field carries a prime), path, the query parameter
  \<^verbatim>\<open>sessionId\<close>, and the body as \<^verbatim>\<open>request.json()\<close> gives it. The fields are the strings of the interface
  \<^verbatim>\<open>ReviewRequest\<close>, each of which may be absent; \<open>JsonNull\<close> is the body \<^verbatim>\<open>null\<close>, which
  cannot be destructured, and \<open>NotJson\<close> a body on which \<^verbatim>\<open>request.json()\<close> rejects.
\<close>

record ReviewRequest =
  rq_code :: "string option"
  rq_language :: "string option"
  rq_context :: "string option"
  rq_sessionId :: "string option"

datatype json_body = NotJson | JsonNull | JsonObject ReviewRequest

record Request =
  method' :: string
  path :: string
  sessionId_param :: "string option"
  body :: json_body

text \<open>
  The JSON bodies of the responses. \<open>ReviewResult\<close> carries \<^verbatim>\<open>sessionId\<close>, \<^verbatim>\<open>review\<close>,
  \<^verbatim>\<open>reviewId\<close>, \<^verbatim>\<open>isFollowUp\<close> and \<^verbatim>\<open>timestamp\<close>, in this order; \<open>InternalError\<close> is the body
  of the \<^verbatim>\<open>catch\<close> block, with the error as its message. The number beside a body is the
  status.
\<close>

datatype payload =
    ErrorBody string
  | InternalError error
  | ReviewResult string string string bool nat
  | Forwarded do_json
  | Health nat

datatype Response =
    ResponseJson payload nat
  | ResponseNull
  | ResponseText string nat
  | ResponseAsset

definition p_now :: "env \<Rightarrow> platform \<Rightarrow> nat \<times> platform" where
  "p_now E p = (Date_now E (p_ticks p), p\<lparr>p_ticks := Suc (p_ticks p)\<rparr>)"

definition p_uuid :: "env \<Rightarrow> platform \<Rightarrow> string \<times> platform" where
  "p_uuid E p = (randomUUID E (p_uuids p), p\<lparr>p_uuids := Suc (p_uuids p)\<rparr>)"

text \<open>\<^verbatim>\<open>x || crypto.randomUUID()\<close>.\<close>

definition or_uuid :: "env \<Rightarrow> string option \<Rightarrow> platform \<Rightarrow> string \<times> platform" where
  "or_uuid E x p = (if falsy x then p_uuid E p else (string_of x, p))"

definition ai_run :: "env \<Rightarrow> string \<Rightarrow> string \<Rightarrow> platform \<Rightarrow> ai_result \<times> platform" where
  "ai_run E sys usr p =
     (AI_run E (ai_calls p) sys usr,
      p\<lparr>ai_calls := Suc (ai_calls p), ai_log := ai_log p @ [(sys, usr)]\<rparr>)"

definition handleReviewRequest ::
  "env \<Rightarrow> Request \<Rightarrow> platform \<Rightarrow> (error + Response) \<times> platform" where
  "handleReviewRequest E request p =
     (case body request of
        NotJson \<Rightarrow> (Inl SyntaxError, p)
      | JsonNull \<Rightarrow> (Inl TypeError, p)
      | JsonObject b \<Rightarrow>
          if falsy (rq_code b) \<or> falsy (rq_language b) then
            (Inr (ResponseJson (ErrorBody ''Missing required fields: code and language'') 400), p)
          else
            (let c = string_of (rq_code b); l = string_of (rq_language b);
                 (sessionKey, p1) = or_uuid E (rq_sessionId b) p;
                 (latestReviewResponse, p2) =
                    session_fetch E sessionKey
                      \<lparr>do_path = ''/reviews'', do_method = ''GET'', do_body = None\<rparr> p1
             in case response_json latestReviewResponse of
                  Inl e \<Rightarrow> (Inl e, p2)
                | Inr (JReviews rs) \<Rightarrow>
                    (let isFollowUp = (length rs > 0);
                         userPrompt =
                           (if isFollowUp
                            then createFollowUpPrompt (review (rs ! (length rs - 1))) c l
                            else createCodeReviewPrompt c l (rq_context b))
                     in case ai_run E SYSTEM_PROMPT userPrompt p2 of
                          (AiError m, p3) \<Rightarrow> (Inl (InferenceFailure m), p3)
                        | (AiResult resp str, p3) \<Rightarrow>
                            (let rv = (if falsy resp then str else string_of resp);
                                 (reviewEntry, p4) =
                                    session_fetch E sessionKey
                                      \<lparr>do_path = ''/add-review'', do_method = ''POST'',
                                       do_body = Some \<lparr>ab_code = c, ab_language = l,
                                                       ab_review = rv,
                                                       ab_context = rq_context b\<rparr>\<rparr> p3
                             in case response_json reviewEntry of
                                  Inl e \<Rightarrow> (Inl e, p4)
                                | Inr storedEntry \<Rightarrow>
                                    (let (reviewId, p5) =
                                           or_uuid E
                                             (case storedEntry of
                                                JEntry en \<Rightarrow> Some (id' en)
                                              | _ \<Rightarrow> None) p4;
                                         (t, p6) = p_now E p5
                                     in (Inr (ResponseJson
                                               (ReviewResult sessionKey rv reviewId isFollowUp t)
                                               200), p6))))
                | Inr _ \<Rightarrow> (Inl TypeError, p2)))"

definition handleGetReviews ::
  "env \<Rightarrow> Request \<Rightarrow> platform \<Rightarrow> (error + Response) \<times> platform" where
  "handleGetReviews E request p =
     (if falsy (sessionId_param request) then
        (Inr (ResponseJson (ErrorBody ''Missing sessionId parameter'') 400), p)
      else
        (let (response, p1) =
               session_fetch E (string_of (sessionId_param request))
                 \<lparr>do_path = ''/reviews'', do_method = ''GET'', do_body = None\<rparr> p
         in case response_json response of
              Inl e \<Rightarrow> (Inl e, p1)
            | Inr data \<Rightarrow> (Inr (ResponseJson (Forwarded data) 200), p1)))"

definition handleClearSession ::
  "env \<Rightarrow> Request \<Rightarrow> platform \<Rightarrow> (error + Response) \<times> platform" where
  "handleClearSession E request p =
     (case body request of
        NotJson \<Rightarrow> (Inl SyntaxError, p)
      | JsonNull \<Rightarrow> (Inl TypeError, p)
      | JsonObject b \<Rightarrow>
          if falsy (rq_sessionId b) then
            (Inr (ResponseJson (ErrorBody ''Missing sessionId'') 400), p)
          else
            (let (response, p1) =
                   session_fetch E (string_of (rq_sessionId b))
                     \<lparr>do_path = ''/clear'', do_method = ''POST'', do_body = None\<rparr> p
             in case response_json response of
                  Inl e \<Rightarrow> (Inl e, p1)
                | Inr data \<Rightarrow> (Inr (ResponseJson (Forwarded data) 200), p1)))"

text \<open>The routes inside the \<^verbatim>\<open>try\<close> block of the Worker.\<close>

definition route :: "env \<Rightarrow> Request \<Rightarrow> platform \<Rightarrow> (error + Response) \<times> platform" where
  "route E request p =
     (if path request = ''/api/review'' \<and> method' request = ''POST'' then
        handleReviewRequest E request p
      else if path request = ''/api/session/reviews'' \<and> method' request = ''GET'' then
        handleGetReviews E request p
      else if path request = ''/api/session/clear'' \<and> method' request = ''POST'' then
        handleClearSession E request p
      else if path request = ''/api/health'' \<and> method' request = ''GET'' then
        (let (t, p1) = p_now E p in (Inr (ResponseJson (Health t) 200), p1))
      else if ASSETS E then (Inr ResponseAsset, p)
      else (Inr (ResponseText ''Not Found'' 404), p))"

definition fetch :: "env \<Rightarrow> Request \<Rightarrow> platform \<Rightarrow> Response \<times> platform" where
  "fetch E request p =
     (if method' request = ''OPTIONS'' then (ResponseNull, p)
      else case route E request p of
             (Inl e, p') \<Rightarrow> (ResponseJson (InternalError e) 500, p')
           | (Inr r, p') \<Rightarrow> (r, p'))"

text \<open>
  The review list of a session as the next load sees it: the persisted list when the
  storage holds a state, else the list of the instance in memory, else the empty list of
  a new instance.
\<close>

definition loaded :: "world \<Rightarrow> ReviewEntry list" where
  "loaded w = (case storage w of Some s \<Rightarrow> reviews s | None \<Rightarrow> reviews (state w))"

definition session_reviews :: "durable \<Rightarrow> ReviewEntry list" where
  "session_reviews d =
     (case disk d of
        Some s \<Rightarrow> reviews s
      | None \<Rightarrow> (case live d of Some s \<Rightarrow> reviews s | None \<Rightarrow> []))"

section \<open>Notions used to state the properties\<close>

text \<open>
  A successful write leaves \<^verbatim>\<open>lastAccessedAt\<close> at the last reading of the clock made by the
  operation, and the storage holding the state in memory.
\<close>

definition refreshed :: "env \<Rightarrow> world \<Rightarrow> world \<Rightarrow> bool" where
  "refreshed E w w' =
     (ticks w < ticks w' \<and> lastAccessedAt (state w') = Date_now E (ticks w' - 1)
      \<and> storage w' = Some (state w'))"

text \<open>
  What a successful \<^verbatim>\<open>initialize\<close> does to the state in memory: nothing when the storage
  is empty, else the stored state with \<^verbatim>\<open>lastAccessedAt\<close> at one new reading of the clock.
\<close>

definition load_only :: "env \<Rightarrow> world \<Rightarrow> world \<Rightarrow> bool" where
  "load_only E w w' =
     (case storage w of
        None \<Rightarrow> state w' = state w \<and> ticks w' = ticks w
      | Some s \<Rightarrow> state w' = s\<lparr>lastAccessedAt := Date_now E (ticks w)\<rparr>
                  \<and> ticks w' = Suc (ticks w))"


text \<open>The session a submission resolves to: \<^verbatim>\<open>sessionId || crypto.randomUUID()\<close>.\<close>

definition sessionKey_of :: "env \<Rightarrow> ReviewRequest \<Rightarrow> platform \<Rightarrow> string" where
  "sessionKey_of E b p = fst (or_uuid E (rq_sessionId b) p)"

text \<open>
  The decision rule in the words of the specification: the initial prompt on an empty
  history, else the follow-up prompt on the review text of the last entry.
\<close>

definition prompt_for :: "ReviewEntry list \<Rightarrow> ReviewRequest \<Rightarrow> string" where
  "prompt_for prior b =
     (if prior = []
      then createCodeReviewPrompt (string_of (rq_code b)) (string_of (rq_language b))
             (rq_context b)
      else createFollowUpPrompt (review (last prior)) (string_of (rq_code b))
             (string_of (rq_language b)))"

section \<open>Concrete environments, sessions and requests\<close>

definition env0 :: env where
  "env0 = \<lparr>Date_now = (\<lambda>n. 1000 + 100 * n), randomUUID = (\<lambda>n. replicate (Suc n) CHR ''u''),
           storage_get_fails = (\<lambda>n. False), storage_put_fails = (\<lambda>n. False),
           AI_run = (\<lambda>n s u. AiResult (Some ''looks fine'') ''{}''), ASSETS = False\<rparr>"

definition env_get_fails :: env where
  "env_get_fails = env0\<lparr>storage_get_fails := (\<lambda>n. True)\<rparr>"

definition env_put_fails :: env where
  "env_put_fails = env0\<lparr>storage_put_fails := (\<lambda>n. True)\<rparr>"

definition env_ai_fails :: env where
  "env_ai_fails = env0\<lparr>AI_run := (\<lambda>n s u. AiError ''unavailable'')\<rparr>"

definition entry1 :: ReviewEntry where
  "entry1 = \<lparr>id' = ''a'', timestamp = 5, code = ''x = 1'', language = ''python'',
             review = ''first'', context' = None\<rparr>"

definition entry2 :: ReviewEntry where
  "entry2 = \<lparr>id' = ''b'', timestamp = 6, code = ''x = 2'', language = ''python'',
             review = ''second'', context' = Some ''retry''\<rparr>"

definition old_state :: SessionState where
  "old_state = \<lparr>reviews = [entry1, entry2], createdAt = 5, lastAccessedAt = 7\<rparr>"

text \<open>A new session, and a new instance of a session whose storage holds \<open>old_state\<close>.\<close>

definition w_new :: world where
  "w_new = constructor env0 None 0 0 0"

definition w_evicted :: world where
  "w_evicted = constructor env0 (Some old_state) 0 0 0"

definition p_one :: platform where
  "p_one = \<lparr>objects = (\<lambda>k. if k = ''s1'' then \<lparr>live = None, disk = Some old_state\<rparr>
                             else \<lparr>live = None, disk = None\<rparr>),
            p_ticks = 0, p_uuids = 0, p_ios = 0, ai_calls = 0, ai_log = []\<rparr>"


definition req_body :: ReviewRequest where
  "req_body = \<lparr>rq_code = Some ''x = 3'', rq_language = Some ''python'', rq_context = None,
               rq_sessionId = Some ''s1''\<rparr>"

definition req_review :: Request where
  "req_review = \<lparr>method' = ''POST'', path = ''/api/review'', sessionId_param = None,
                 body = JsonObject req_body\<rparr>"

definition req_clear :: Request where
  "req_clear = \<lparr>method' = ''POST'', path = ''/api/session/clear'', sessionId_param = None,
                body = JsonObject req_body\<rparr>"

definition req_missing_language :: Request where
  "req_missing_language =
     req_review\<lparr>body := JsonObject (req_body\<lparr>rq_language := None\<rparr>)\<rparr>"

definition req_empty_code :: Request where
  "req_empty_code = req_review\<lparr>body := JsonObject (req_body\<lparr>rq_code := Some []\<rparr>)\<rparr>"

definition req_list_no_session :: Request where
  "req_list_no_session =
     \<lparr>method' = ''GET'', path = ''/api/session/reviews'', sessionId_param = None,
      body = NotJson\<rparr>"

definition req_clear_no_session :: Request where
  "req_clear_no_session =
     req_clear\<lparr>body := JsonObject (req_body\<lparr>rq_sessionId := None\<rparr>)\<rparr>"

lemmas io_defs = initialize_def storage_get_def storage_put_def now_def fresh_uuid_def

lemmas fixture_defs = env0_def env_get_fails_def env_put_fails_def env_ai_fails_def
  w_new_def w_evicted_def constructor_def old_state_def entry1_def entry2_def

section \<open>The methods of the store in closed form\<close>

lemma initialize_cases:
  "initialize E w =
     (if storage_get_fails E (ios w) then (Inl StorageFailure, w\<lparr>ios := Suc (ios w)\<rparr>)
      else case storage w of
             None \<Rightarrow> (Inr (), w\<lparr>ios := Suc (ios w)\<rparr>)
           | Some s \<Rightarrow> (Inr (), w\<lparr>state := s\<lparr>lastAccessedAt := Date_now E (ticks w)\<rparr>,
                                  ticks := Suc (ticks w), ios := Suc (ios w)\<rparr>))"
  by (simp add: io_defs split: option.splits)

lemma addReview_cases:
  "addReview E c l r cx w =
     (if storage_get_fails E (ios w) then (Inl StorageFailure, w\<lparr>ios := Suc (ios w)\<rparr>)
      else
        (let t0 = (case storage w of None \<Rightarrow> ticks w | Some _ \<Rightarrow> Suc (ticks w));
             en = \<lparr>id' = randomUUID E (uuids w), timestamp = Date_now E t0, code = c,
                   language = l, review = r, context' = cx\<rparr>;
             s0 = (case storage w of None \<Rightarrow> state w | Some s \<Rightarrow> s);
             s1 = s0\<lparr>reviews := loaded w @ [en], lastAccessedAt := Date_now E (Suc t0)\<rparr>;
             w1 = w\<lparr>state := s1, ticks := Suc (Suc t0), uuids := Suc (uuids w),
                    ios := Suc (Suc (ios w))\<rparr>
         in if storage_put_fails E (Suc (ios w)) then (Inl StorageFailure, w1)
            else (Inr en, w1\<lparr>storage := Some s1\<rparr>)))"
  by (simp add: addReview_def initialize_cases storage_put_def now_def fresh_uuid_def
      loaded_def Let_def split: option.splits)

lemma getReviews_cases:
  "getReviews E w =
     (if storage_get_fails E (ios w) then (Inl StorageFailure, w\<lparr>ios := Suc (ios w)\<rparr>)
      else
        (let t0 = (case storage w of None \<Rightarrow> ticks w | Some _ \<Rightarrow> Suc (ticks w));
             s0 = (case storage w of None \<Rightarrow> state w | Some s \<Rightarrow> s);
             s1 = s0\<lparr>lastAccessedAt := Date_now E t0\<rparr>;
             w1 = w\<lparr>state := s1, ticks := Suc t0, ios := Suc (Suc (ios w))\<rparr>
         in if storage_put_fails E (Suc (ios w)) then (Inl StorageFailure, w1)
            else (Inr (loaded w), w1\<lparr>storage := Some s1\<rparr>)))"
  by (simp add: getReviews_def initialize_cases storage_put_def now_def
      loaded_def Let_def split: option.splits)

lemma clearReviews_cases:
  "clearReviews E w =
     (let s1 = (state w)\<lparr>reviews := [], lastAccessedAt := Date_now E (ticks w)\<rparr>;
          w1 = w\<lparr>state := s1, ticks := Suc (ticks w), ios := Suc (ios w)\<rparr>
      in if storage_put_fails E (ios w) then (Inl StorageFailure, w1)
         else (Inr (), w1\<lparr>storage := Some s1\<rparr>))"
  by (simp add: clearReviews_def storage_put_def now_def Let_def)

lemma find_id_Some:
  "\<exists>r \<in> set xs. id' r = i \<Longrightarrow>
     \<exists>r. find (\<lambda>r. id' r = i) xs = Some r \<and> r \<in> set xs \<and> id' r = i"
  by (induction xs) auto




section \<open>The requests of the Worker to the object\<close>

lemma fetch_reviews_world:
  "ReviewSession_fetch E \<lparr>do_path = ''/reviews'', do_method = ''GET'', do_body = None\<rparr> w
     = (resp, w') \<Longrightarrow>
     loaded w' = loaded w
     \<and> (resp = DoError StorageFailure \<or> resp = DoJson (JReviews (loaded w)))
     \<and> (resp = DoJson (JReviews (loaded w)) \<longleftrightarrow>
          \<not> storage_get_fails E (ios w) \<and> \<not> storage_put_fails E (Suc (ios w)))"
  by (auto simp: ReviewSession_fetch_def getReviews_cases Let_def loaded_def
      split: if_splits option.splits)

lemma loaded_enter: "loaded (enter E k p) = session_reviews (objects p k)"
  by (simp add: loaded_def enter_def session_reviews_def constructor_def split: option.splits)

lemma session_reviews_leave:
  "session_reviews (objects (leave k w p) k') =
     (if k' = k then loaded w else session_reviews (objects p k'))"
  by (simp add: leave_def session_reviews_def loaded_def split: option.splits)

lemma leave_frame: "ai_log (leave k w p) = ai_log p" "ai_calls (leave k w p) = ai_calls p"
  by (simp_all add: leave_def)

lemma enter_ios: "ios (enter E k p) = p_ios p"
  by (simp add: enter_def constructor_def split: option.splits)

lemma session_fetch_reviews:
  assumes "session_fetch E k \<lparr>do_path = ''/reviews'', do_method = ''GET'', do_body = None\<rparr> p
            = (resp, p')"
  shows "session_reviews (objects p' k') = session_reviews (objects p k')"
    and "ai_log p' = ai_log p" and "ai_calls p' = ai_calls p"
    and "resp = DoError StorageFailure \<or> resp = DoJson (JReviews (session_reviews (objects p k)))"
    and "resp = DoJson (JReviews (session_reviews (objects p k))) \<longleftrightarrow>
          \<not> storage_get_fails E (p_ios p) \<and> \<not> storage_put_fails E (Suc (p_ios p))"
proof -
  obtain w where
    w: "ReviewSession_fetch E \<lparr>do_path = ''/reviews'', do_method = ''GET'', do_body = None\<rparr>
          (enter E k p) = (resp, w)"
    and p': "p' = leave k w p"
    using assms by (auto simp: session_fetch_def split: prod.splits)
  note f = fetch_reviews_world [OF w]
  show "session_reviews (objects p' k') = session_reviews (objects p k')"
    using f by (simp add: p' session_reviews_leave loaded_enter)
  show "ai_log p' = ai_log p" "ai_calls p' = ai_calls p" by (simp_all add: p' leave_frame)
  show "resp = DoError StorageFailure \<or> resp = DoJson (JReviews (session_reviews (objects p k)))"
    using f by (auto simp: loaded_enter)
  show "resp = DoJson (JReviews (session_reviews (objects p k))) \<longleftrightarrow>
          \<not> storage_get_fails E (p_ios p) \<and> \<not> storage_put_fails E (Suc (p_ios p))"
    using f by (simp add: loaded_enter enter_ios)
qed

lemma session_fetch_ai:
  "session_fetch E k rq p = (resp, p') \<Longrightarrow> ai_log p' = ai_log p \<and> ai_calls p' = ai_calls p"
  by (auto simp: session_fetch_def leave_frame split: prod.splits)

lemma session_fetch_ios:
  "session_fetch E k \<lparr>do_path = ''/reviews'', do_method = ''GET'', do_body = None\<rparr> p
     = (resp, p') \<Longrightarrow> p_ios p' \<le> Suc (Suc (p_ios p))"
  by (auto simp: session_fetch_def leave_def ReviewSession_fetch_def getReviews_cases Let_def
      enter_ios split: prod.splits if_splits)

lemma session_fetch_add_ok:
  assumes "\<not> storage_get_fails E (p_ios p)" "\<not> storage_put_fails E (Suc (p_ios p))"
  shows "\<exists>en p'. session_fetch E k
            \<lparr>do_path = ''/add-review'', do_method = ''POST'', do_body = Some ab\<rparr> p
          = (DoJson (JEntry en), p')"
  using assms
  by (simp add: session_fetch_def ReviewSession_fetch_def addReview_cases Let_def enter_ios)

lemma or_uuid_frame:
  "or_uuid E x p = (k, p1) \<Longrightarrow>
     objects p1 = objects p \<and> ai_log p1 = ai_log p \<and> ai_calls p1 = ai_calls p
     \<and> p_ios p1 = p_ios p"
  by (auto simp: or_uuid_def p_uuid_def split: if_splits)

lemma p_now_frame:
  "p_now E p = (t, p1) \<Longrightarrow>
     objects p1 = objects p \<and> ai_log p1 = ai_log p \<and> ai_calls p1 = ai_calls p
     \<and> p_ios p1 = p_ios p"
  by (auto simp: p_now_def)

lemma fetch_review_route:
  "path request = ''/api/review'' \<Longrightarrow> method' request = ''POST'' \<Longrightarrow>
     fetch E request p =
       (case handleReviewRequest E request p of
          (Inl e, p') \<Rightarrow> (ResponseJson (InternalError e) 500, p')
        | (Inr r, p') \<Rightarrow> (r, p'))"
  by (simp add: fetch_def route_def)

text \<open>The handler on a valid body, from the call of the inference service on.\<close>

lemma handleReviewRequest_valid:
  assumes b: "body request = JsonObject b" "\<not> falsy (rq_code b)" "\<not> falsy (rq_language b)"
    and k: "or_uuid E (rq_sessionId b) p = (key, p1)"
    and f: "session_fetch E key \<lparr>do_path = ''/reviews'', do_method = ''GET'', do_body = None\<rparr> p1
             = (r1, p2)"
  shows "handleReviewRequest E request p =
     (if r1 = DoError StorageFailure then (Inl SyntaxError, p2)
      else case ai_run E SYSTEM_PROMPT (prompt_for (session_reviews (objects p key)) b) p2 of
          (AiError m, p3) \<Rightarrow> (Inl (InferenceFailure m), p3)
        | (AiResult resp str, p3) \<Rightarrow>
            (let rv = (if falsy resp then str else string_of resp);
                 (reviewEntry, p4) =
                    session_fetch E key
                      \<lparr>do_path = ''/add-review'', do_method = ''POST'',
                       do_body = Some \<lparr>ab_code = string_of (rq_code b),
                                       ab_language = string_of (rq_language b),
                                       ab_review = rv, ab_context = rq_context b\<rparr>\<rparr> p3
             in case response_json reviewEntry of
                  Inl e \<Rightarrow> (Inl e, p4)
                | Inr storedEntry \<Rightarrow>
                    (let (reviewId, p5) =
                           or_uuid E (case storedEntry of JEntry en \<Rightarrow> Some (id' en)
                                      | _ \<Rightarrow> None) p4;
                         (t, p6) = p_now E p5
                     in (Inr (ResponseJson
                               (ReviewResult key rv reviewId
                                  (session_reviews (objects p key) \<noteq> []) t) 200), p6))))"
proof -
  from or_uuid_frame [OF k] have o: "objects p1 = objects p" by simp
  from session_fetch_reviews(4) [OF f] o
  have r: "r1 = DoError StorageFailure \<or> r1 = DoJson (JReviews (session_reviews (objects p key)))"
    by simp
  show ?thesis
  proof (cases "r1 = DoError StorageFailure")
    case True
    then show ?thesis using b k f
      by (simp add: handleReviewRequest_def response_json_def)
  next
    case False
    with r have r1: "r1 = DoJson (JReviews (session_reviews (objects p key)))" by simp
    show ?thesis using b k f
      by (simp add: handleReviewRequest_def response_json_def r1 prompt_for_def Let_def
          last_conv_nth)
  qed
qed

text \<open>
  What a submission does to the record of calls of the inference service, with the prompt
  named by the decision rule, and the text of that prompt in its two cases.
\<close>

lemma submission_log:
  assumes "path request = ''/api/review''" "method' request = ''POST''"
    and "body request = JsonObject b"
    and "fetch E request p = (resp, p')"
  shows "(\<forall>sid rv rid f t. resp = ResponseJson (ReviewResult sid rv rid f t) 200 \<longrightarrow>
            sid = sessionKey_of E b p
          \<and> (f \<longleftrightarrow> session_reviews (objects p sid) \<noteq> [])
          \<and> ai_log p' = ai_log p @
              [(SYSTEM_PROMPT, prompt_for (session_reviews (objects p sid)) b)])
    \<and> (ai_log p' = ai_log p
       \<or> ai_log p' = ai_log p @
            [(SYSTEM_PROMPT, prompt_for (session_reviews (objects p (sessionKey_of E b p))) b)])
    \<and> (\<not> falsy (rq_code b) \<and> \<not> falsy (rq_language b)
         \<and> (\<forall>n. \<not> storage_get_fails E n \<and> \<not> storage_put_fails E n)
         \<and> (\<forall>m. AI_run E (ai_calls p) SYSTEM_PROMPT
                  (prompt_for (session_reviews (objects p (sessionKey_of E b p))) b)
                \<noteq> AiError m)
        \<longrightarrow> (\<exists>rv rid t. resp = ResponseJson
               (ReviewResult (sessionKey_of E b p) rv rid
                  (session_reviews (objects p (sessionKey_of E b p)) \<noteq> []) t) 200))"
proof -
  note F = fetch_review_route [OF assms(1,2), of E p]
  show ?thesis
  proof (cases "falsy (rq_code b) \<or> falsy (rq_language b)")
    case True
    with F assms(3,4)
    have "resp = ResponseJson (ErrorBody ''Missing required fields: code and language'') 400"
      "p' = p"
      by (auto simp: handleReviewRequest_def)
    with True show ?thesis by auto
  next
    case False
    then have v: "\<not> falsy (rq_code b)" "\<not> falsy (rq_language b)" by simp_all
    obtain key p1 where k: "or_uuid E (rq_sessionId b) p = (key, p1)" by force
    then have key: "sessionKey_of E b p = key" by (simp add: sessionKey_of_def)
    obtain r1 p2 where f: "session_fetch E key
      \<lparr>do_path = ''/reviews'', do_method = ''GET'', do_body = None\<rparr> p1 = (r1, p2)" by force
    note o = or_uuid_frame [OF k]
    note s = session_fetch_reviews [OF f]
    note h = handleReviewRequest_valid [OF assms(3) v k f]
    let ?prior = "session_reviews (objects p key)"
    let ?prompt = "prompt_for ?prior b"
    have log2: "ai_log p2 = ai_log p" "ai_calls p2 = ai_calls p" using s(2,3) o by simp_all
    show ?thesis
    proof (cases "r1 = DoError StorageFailure")
      case True
      with h F assms(4) have e: "resp = ResponseJson (InternalError SyntaxError) 500" "p' = p2"
        by simp_all
      from True s(5) o have "storage_get_fails E (p_ios p) \<or> storage_put_fails E (Suc (p_ios p))"
        by auto
      with e log2 show ?thesis by auto
    next
      case ok: False
      show ?thesis
      proof (cases "AI_run E (ai_calls p) SYSTEM_PROMPT ?prompt")
        case (AiError m)
        with ok h F assms(4) log2
        have "resp = ResponseJson (InternalError (InferenceFailure m)) 500"
          "ai_log p' = ai_log p @ [(SYSTEM_PROMPT, ?prompt)]"
          by (simp_all add: ai_run_def)
        with AiError key show ?thesis by auto
      next
        case (AiResult rf str)
        define rv where "rv = (if falsy rf then str else string_of rf)"
        define p3 where "p3 = p2\<lparr>ai_calls := Suc (ai_calls p),
                                  ai_log := ai_log p @ [(SYSTEM_PROMPT, ?prompt)]\<rparr>"
        define ab where "ab = \<lparr>ab_code = string_of (rq_code b),
                                ab_language = string_of (rq_language b),
                                ab_review = rv, ab_context = rq_context b\<rparr>"
        obtain r2 p4 where a: "session_fetch E key
             \<lparr>do_path = ''/add-review'', do_method = ''POST'', do_body = Some ab\<rparr> p3 = (r2, p4)"
          by force
        have log4: "ai_log p4 = ai_log p @ [(SYSTEM_PROMPT, ?prompt)]"
          using session_fetch_ai [OF a] by (simp add: p3_def)
        have H: "handleReviewRequest E request p =
           (case response_json r2 of
                  Inl e \<Rightarrow> (Inl e, p4)
                | Inr storedEntry \<Rightarrow>
                    (let (reviewId, p5) =
                           or_uuid E (case storedEntry of JEntry en \<Rightarrow> Some (id' en)
                                      | _ \<Rightarrow> None) p4;
                         (t, p6) = p_now E p5
                     in (Inr (ResponseJson
                               (ReviewResult key rv reviewId (?prior \<noteq> []) t) 200), p6)))"
          using h ok AiResult log2 a
          by (simp add: ai_run_def rv_def [symmetric] p3_def [symmetric] ab_def [symmetric])
        show ?thesis
        proof (cases "response_json r2")
          case (Inl e)
          with H F assms(4) have "resp = ResponseJson (InternalError e) 500" "p' = p4"
            by simp_all
          moreover have "\<exists>n. storage_get_fails E n \<or> storage_put_fails E n"
          proof -
            have "\<not> (\<not> storage_get_fails E (p_ios p3) \<and> \<not> storage_put_fails E (Suc (p_ios p3)))"
            proof
              assume "\<not> storage_get_fails E (p_ios p3) \<and> \<not> storage_put_fails E (Suc (p_ios p3))"
              then obtain en q where "session_fetch E key
                \<lparr>do_path = ''/add-review'', do_method = ''POST'', do_body = Some ab\<rparr> p3
                 = (DoJson (JEntry en), q)"
                using session_fetch_add_ok [of E p3 key ab] by blast
              with a Inl show False by (auto simp: response_json_def)
            qed
            then show ?thesis by blast
          qed
          ultimately show ?thesis using log4 key by auto
        next
          case (Inr j)
          obtain rid p5 where
            u: "or_uuid E (case j of JEntry en \<Rightarrow> Some (id' en) | _ \<Rightarrow> None) p4 = (rid, p5)"
            by force
          obtain t p6 where n: "p_now E p5 = (t, p6)" by force
          from H Inr u n F assms(4)
          have "resp = ResponseJson (ReviewResult key rv rid (?prior \<noteq> []) t) 200" "p' = p6"
            by simp_all
          moreover have "ai_log p6 = ai_log p @ [(SYSTEM_PROMPT, ?prompt)]"
            using or_uuid_frame [OF u] p_now_frame [OF n] log4 by simp
          ultimately show ?thesis using key by auto
        qed
      qed
    qed
  qed
qed

lemma prompt_for_follow_up:
  "prior \<noteq> [] \<Longrightarrow>
     prompt_for prior b =
       ''Based on your previous review:\<newline>\<newline>'' @ review (last prior)
                 @ ''\<newline>\<newline>The code has been updated to:\<newline>\<newline>```''
                 @ string_of (rq_language b) @ ''\<newline>'' @ string_of (rq_code b)
                 @ ''\<newline>```\<newline>\<newline>Please review the changes and confirm if the previous issues were addressed or if new issues have been introduced.''"
  by (simp add: prompt_for_def createFollowUpPrompt_def)

lemma prompt_for_initial:
  "prompt_for [] b =
       ''Please review the following '' @ string_of (rq_language b)
                 @ '' code:\<newline>\<newline>```'' @ string_of (rq_language b) @ ''\<newline>''
                 @ string_of (rq_code b) @ ''\<newline>```\<newline>''
                 @ (if falsy (rq_context b) then []
                    else ''\<newline>Additional context: '' @ string_of (rq_context b) @ ''\<newline>'')
                 @ ''\<newline>Provide a comprehensive code review following the format specified in your system prompt.''"
  by (simp add: prompt_for_def createCodeReviewPrompt_def Let_def)

section \<open>Properties of the session store\<close>

text \<open>
  Claim C1. \<^verbatim>\<open>clearReviews\<close> writes the state in memory without loading first. On a new
  instance of a session whose storage holds a state created at time 5, the persisted
  \<^verbatim>\<open>createdAt\<close> becomes the time of construction of the instance, 1000; the same happens
  through the Worker, on a request to clear a session whose object is not in memory.
\<close>

theorem clearReviews_fresh_instance_resets_createdAt:
  "map_option createdAt (storage w_evicted) = Some 5
   \<and> fst (clearReviews env0 w_evicted) = Inr ()
   \<and> map_option createdAt (storage (snd (clearReviews env0 w_evicted))) = Some 1000
   \<and> map_option createdAt (disk (objects p_one ''s1'')) = Some 5
   \<and> fst (fetch env0 req_clear p_one) = ResponseJson (Forwarded JSuccess) 200
   \<and> map_option createdAt (disk (objects (snd (fetch env0 req_clear p_one)) ''s1'')) = Some 1000"
  by (simp add: clearReviews_def constructor_def io_defs env0_def old_state_def w_evicted_def
      p_one_def req_clear_def req_body_def fetch_def route_def handleClearSession_def
      falsy_def string_of_def session_fetch_def enter_def leave_def ReviewSession_fetch_def
      response_json_def)



text \<open>
  The reading methods do not refresh the time of last access. On a new session,
  \<^verbatim>\<open>getMetadata\<close> reads no clock and leaves the state in memory and the empty storage as
  they are, while the clock stands at 1200. On a new instance of a persisted session,
  \<^verbatim>\<open>getReview\<close> succeeds and the persisted \<^verbatim>\<open>lastAccessedAt\<close> is still 7.
\<close>

theorem reads_leave_lastAccessedAt_counterexample:
  "fst (getMetadata env0 w_new)
     = Inr \<lparr>reviewCount = 0, md_createdAt = 1000, md_lastAccessedAt = 1100\<rparr>
   \<and> lastAccessedAt (state w_new) = 1100
   \<and> state (snd (getMetadata env0 w_new)) = state w_new
   \<and> storage (snd (getMetadata env0 w_new)) = None
   \<and> Date_now env0 (ticks w_new) = 1200
   \<and> fst (getReview env0 ''a'' w_evicted) = Inr (Some entry1)
   \<and> map_option lastAccessedAt (storage w_evicted) = Some 7
   \<and> map_option lastAccessedAt (storage (snd (getReview env0 ''a'' w_evicted))) = Some 7
   \<and> Date_now env0 (ticks w_evicted) = 1200"
  by (simp add: getMetadata_def getReview_def initialize_cases fixture_defs)

text \<open>
  Claim C4, as the code has it. A successful \<^verbatim>\<open>addReview\<close>, \<^verbatim>\<open>getReviews\<close> or
  \<^verbatim>\<open>clearReviews\<close> sets \<^verbatim>\<open>lastAccessedAt\<close> to a reading of the clock made by the
  operation and persists it. \<^verbatim>\<open>initialize\<close>, \<^verbatim>\<open>getReview\<close>, \<^verbatim>\<open>getLatestReview\<close> and
  \<^verbatim>\<open>getMetadata\<close> never write the storage; in memory they set \<^verbatim>\<open>lastAccessedAt\<close> to a
  reading of the clock when the storage holds a state, and change nothing otherwise.
\<close>

theorem lastAccessedAt_updates:
  "(addReview E c l r cx w = (Inr en, w') \<longrightarrow> refreshed E w w')
   \<and> (getReviews E w = (Inr rs, w') \<longrightarrow> refreshed E w w')
   \<and> (clearReviews E w = (Inr u, w') \<longrightarrow> refreshed E w w' \<and> ticks w' = Suc (ticks w))
   \<and> storage (snd (initialize E w)) = storage w
   \<and> storage (snd (getReview E i w)) = storage w
   \<and> storage (snd (getLatestReview E w)) = storage w
   \<and> storage (snd (getMetadata E w)) = storage w
   \<and> (initialize E w = (Inr u, w') \<longrightarrow> load_only E w w')
   \<and> (getReview E i w = (Inr x, w') \<longrightarrow> load_only E w w')
   \<and> (getLatestReview E w = (Inr x, w') \<longrightarrow> load_only E w w')
   \<and> (getMetadata E w = (Inr m, w') \<longrightarrow> load_only E w w')"
proof -
  have a: "addReview E c l r cx w = (Inr en, w') \<longrightarrow> refreshed E w w'"
    by (auto simp: addReview_cases refreshed_def Let_def split: if_splits option.splits)
  have b: "getReviews E w = (Inr rs, w') \<longrightarrow> refreshed E w w'"
    by (auto simp: getReviews_cases refreshed_def Let_def split: if_splits option.splits)
  have c: "clearReviews E w = (Inr u, w') \<longrightarrow> refreshed E w w' \<and> ticks w' = Suc (ticks w)"
    by (auto simp: clearReviews_cases refreshed_def Let_def split: if_splits)
  have d: "storage (snd (initialize E w)) = storage w"
    "storage (snd (getReview E i w)) = storage w"
    "storage (snd (getLatestReview E w)) = storage w"
    "storage (snd (getMetadata E w)) = storage w"
    by (simp_all add: getReview_def getLatestReview_def getMetadata_def initialize_cases
        split: option.splits)
  have e: "initialize E w = (Inr u, w') \<longrightarrow> load_only E w w'"
    by (auto simp: initialize_cases load_only_def split: if_splits option.splits)
  have f: "getReview E i w = (Inr x, w') \<longrightarrow> load_only E w w'"
    by (auto simp: getReview_def initialize_cases load_only_def split: if_splits option.splits)
  have g: "getLatestReview E w = (Inr x, w') \<longrightarrow> load_only E w w'"
    by (auto simp: getLatestReview_def initialize_cases load_only_def
        split: if_splits option.splits)
  have h: "getMetadata E w = (Inr m, w') \<longrightarrow> load_only E w w'"
    by (auto simp: getMetadata_def initialize_cases load_only_def split: if_splits option.splits)
  from a b c d e f g h show ?thesis by simp
qed

theorem lastAccessedAt_updates_witness:
  "refreshed env0 w_evicted (snd (addReview env0 ''x = 3'' ''python'' ''third'' None w_evicted))
   \<and> refreshed env0 w_evicted (snd (getReviews env0 w_evicted))
   \<and> refreshed env0 w_evicted (snd (clearReviews env0 w_evicted))
   \<and> load_only env0 w_evicted (snd (initialize env0 w_evicted))
   \<and> load_only env0 w_evicted (snd (getReview env0 ''a'' w_evicted))
   \<and> load_only env0 w_evicted (snd (getLatestReview env0 w_evicted))
   \<and> load_only env0 w_evicted (snd (getMetadata env0 w_evicted))"
proof -
  let ?a = "addReview env0 ''x = 3'' ''python'' ''third'' None w_evicted"
  have a: "?a = (Inr (projr (fst ?a)), snd ?a)"
    by (simp add: addReview_cases Let_def env0_def)
  have b: "getReviews env0 w_evicted
            = (Inr (projr (fst (getReviews env0 w_evicted))), snd (getReviews env0 w_evicted))"
    by (simp add: getReviews_cases Let_def env0_def)
  have c: "clearReviews env0 w_evicted = (Inr (), snd (clearReviews env0 w_evicted))"
    by (simp add: clearReviews_cases Let_def env0_def)
  have d: "initialize env0 w_evicted = (Inr (), snd (initialize env0 w_evicted))"
    by (simp add: initialize_cases env0_def split: option.splits)
  have e: "getReview env0 ''a'' w_evicted
            = (Inr (projr (fst (getReview env0 ''a'' w_evicted))),
               snd (getReview env0 ''a'' w_evicted))"
    by (simp add: getReview_def initialize_cases env0_def split: option.splits)
  have f: "getLatestReview env0 w_evicted
            = (Inr (projr (fst (getLatestReview env0 w_evicted))),
               snd (getLatestReview env0 w_evicted))"
    by (simp add: getLatestReview_def initialize_cases env0_def split: option.splits)
  have g: "getMetadata env0 w_evicted
            = (Inr (projr (fst (getMetadata env0 w_evicted))),
               snd (getMetadata env0 w_evicted))"
    by (simp add: getMetadata_def initialize_cases env0_def split: option.splits)
  from lastAccessedAt_updates [of env0 "''x = 3''" "''python''" "''third''" None w_evicted
      "projr (fst ?a)" "snd ?a"] a
  have 1: "refreshed env0 w_evicted (snd ?a)" by blast
  from lastAccessedAt_updates [of env0 _ _ _ _ w_evicted _ "snd (getReviews env0 w_evicted)"
      "projr (fst (getReviews env0 w_evicted))"] b
  have 2: "refreshed env0 w_evicted (snd (getReviews env0 w_evicted))" by blast
  from lastAccessedAt_updates [of env0 _ _ _ _ w_evicted _ "snd (clearReviews env0 w_evicted)"
      _ "()"] c
  have 3: "refreshed env0 w_evicted (snd (clearReviews env0 w_evicted))" by blast
  from lastAccessedAt_updates [of env0 _ _ _ _ w_evicted _ "snd (initialize env0 w_evicted)"
      _ "()"] d
  have 4: "load_only env0 w_evicted (snd (initialize env0 w_evicted))" by blast
  from lastAccessedAt_updates [of env0 _ _ _ _ w_evicted _ "snd (getReview env0 ''a'' w_evicted)"
      _ _ "''a''" "projr (fst (getReview env0 ''a'' w_evicted))"] e
  have 5: "load_only env0 w_evicted (snd (getReview env0 ''a'' w_evicted))" by blast
  from lastAccessedAt_updates [of env0 _ _ _ _ w_evicted _ "snd (getLatestReview env0 w_evicted)"
      _ _ _ "projr (fst (getLatestReview env0 w_evicted))"] f
  have 6: "load_only env0 w_evicted (snd (getLatestReview env0 w_evicted))" by blast
  from lastAccessedAt_updates [of env0 _ _ _ _ w_evicted _ "snd (getMetadata env0 w_evicted)"
      _ _ _ _ "projr (fst (getMetadata env0 w_evicted))"] g
  have 7: "load_only env0 w_evicted (snd (getMetadata env0 w_evicted))" by blast
  from 1 2 3 4 5 6 7 show ?thesis by blast
qed

text \<open>
  \<^verbatim>\<open>addReview\<close> also rejects when the load of \<^verbatim>\<open>initialize\<close> does: here no save rejects,
  and none is tried, since the one storage operation made is the load.
\<close>

theorem addReview_load_failure_counterexample:
  "\<not> storage_put_fails env_get_fails 0 \<and> \<not> storage_put_fails env_get_fails 1
   \<and> addReview env_get_fails ''x = 1'' ''python'' ''first'' None w_new
       = (Inl StorageFailure, w_new\<lparr>ios := 1\<rparr>)"
  by (simp add: addReview_cases fixture_defs)

text \<open>
  Claim C6, as the code has it. \<^verbatim>\<open>addReview\<close> rejects exactly when the load made by
  \<^verbatim>\<open>initialize\<close> or the save rejects, and with that error of the storage. It then returns no
  entry and leaves the storage as it was; the load is tried once and the save at most
  once. When it succeeds, the storage holds the state whose last entry is the one returned.
\<close>

theorem addReview_fails_only_on_storage:
  assumes "addReview E c l r cx w = (res, w')"
  shows "(isl res \<longleftrightarrow> storage_get_fails E (ios w) \<or> storage_put_fails E (Suc (ios w)))
    \<and> (isl res \<longrightarrow> res = Inl StorageFailure \<and> storage w' = storage w)
    \<and> (\<not> isl res \<longrightarrow> storage w' = Some (state w') \<and> last (reviews (state w')) = projr res)
    \<and> ios w' = (if storage_get_fails E (ios w) then Suc (ios w) else Suc (Suc (ios w)))"
  using assms
  by (auto simp: addReview_cases Let_def split: if_splits)

theorem addReview_fails_only_on_storage_witness:
  "fst (addReview env_put_fails ''x = 3'' ''python'' ''third'' None w_evicted) = Inl StorageFailure
   \<and> storage (snd (addReview env_put_fails ''x = 3'' ''python'' ''third'' None w_evicted))
       = Some old_state
   \<and> ios (snd (addReview env_put_fails ''x = 3'' ''python'' ''third'' None w_evicted)) = 2
   \<and> \<not> isl (fst (addReview env0 ''x = 3'' ''python'' ''third'' None w_evicted))
   \<and> map_option (\<lambda>s. review (last (reviews s)))
       (storage (snd (addReview env0 ''x = 3'' ''python'' ''third'' None w_evicted)))
       = Some ''third''"
proof -
  let ?f = "addReview env_put_fails ''x = 3'' ''python'' ''third'' None w_evicted"
  let ?s = "addReview env0 ''x = 3'' ''python'' ''third'' None w_evicted"
  have f: "?f = (fst ?f, snd ?f)" and s: "?s = (fst ?s, snd ?s)" by simp_all
  have o: "storage_put_fails env_put_fails (Suc (ios w_evicted))"
    "\<not> storage_get_fails env_put_fails (ios w_evicted)"
    "\<not> storage_put_fails env0 (Suc (ios w_evicted))"
    "\<not> storage_get_fails env0 (ios w_evicted)"
    "storage w_evicted = Some old_state" "ios w_evicted = 0"
    by (simp_all add: env_put_fails_def env0_def w_evicted_def constructor_def)
  have e: "review (projr (fst ?s)) = ''third''"
    by (simp add: addReview_cases Let_def env0_def)
  from addReview_fails_only_on_storage [OF f] o
  have 1: "fst ?f = Inl StorageFailure \<and> storage (snd ?f) = Some old_state \<and> ios (snd ?f) = 2"
    by simp
  from addReview_fails_only_on_storage [OF s] o e
  have 2: "\<not> isl (fst ?s) \<and> map_option (\<lambda>s. review (last (reviews s))) (storage (snd ?s))
             = Some ''third''"
    by simp
  from 1 2 show ?thesis by simp
qed

text \<open>
  Claim C8. When the save does not reject, \<^verbatim>\<open>clearReviews\<close> succeeds and leaves the empty
  list in memory and in the storage, whatever the list was; a \<^verbatim>\<open>getReviews\<close> that follows
  returns the empty sequence when its load and save do not reject, and a second
  \<^verbatim>\<open>clearReviews\<close> leaves both lists as the first did. On a session whose lists are
  empty, \<^verbatim>\<open>clearReviews\<close> leaves them empty.
\<close>

theorem clearReviews_then_getReviews_empty:
  "(\<not> storage_put_fails E (ios w) \<longrightarrow>
      (\<exists>w1. clearReviews E w = (Inr (), w1) \<and> reviews (state w1) = [] \<and> loaded w1 = []
         \<and> (\<not> storage_get_fails E (ios w1) \<and> \<not> storage_put_fails E (Suc (ios w1)) \<longrightarrow>
              (\<exists>w2. getReviews E w1 = (Inr [], w2)))
         \<and> (\<not> storage_put_fails E (ios w1) \<longrightarrow>
              (\<exists>w2. clearReviews E w1 = (Inr (), w2) \<and> reviews (state w2) = reviews (state w1)
                 \<and> loaded w2 = loaded w1))))
   \<and> (reviews (state w) = [] \<and> loaded w = [] \<longrightarrow>
        reviews (state (snd (clearReviews E w))) = [] \<and> loaded (snd (clearReviews E w)) = [])"
  by (simp add: clearReviews_cases getReviews_cases loaded_def Let_def split: option.splits)

theorem clearReviews_then_getReviews_empty_witness:
  "length (loaded w_evicted) = 2
   \<and> (\<exists>w1 w2 w3. clearReviews env0 w_evicted = (Inr (), w1) \<and> getReviews env0 w1 = (Inr [], w2)
         \<and> clearReviews env0 w1 = (Inr (), w3) \<and> loaded w3 = [])
   \<and> loaded (snd (clearReviews env0 w_new)) = []"
proof -
  have l: "length (loaded w_evicted) = 2" "reviews (state w_new) = [] \<and> loaded w_new = []"
    by (simp_all add: loaded_def fixture_defs)
  have ok: "\<not> storage_put_fails env0 n" "\<not> storage_get_fails env0 n" for n
    by (simp_all add: env0_def)
  from clearReviews_then_getReviews_empty [of env0 w_evicted] ok
  have 1: "\<exists>w1 w2 w3. clearReviews env0 w_evicted = (Inr (), w1)
         \<and> getReviews env0 w1 = (Inr [], w2)
         \<and> clearReviews env0 w1 = (Inr (), w3) \<and> loaded w3 = []"
    by metis
  from clearReviews_then_getReviews_empty [of env0 w_new] l(2)
  have 2: "loaded (snd (clearReviews env0 w_new)) = []" by blast
  from l(1) 1 2 show ?thesis by blast
qed

text \<open>
  Claim C9. When the load does not reject, \<^verbatim>\<open>getReview\<close> returns the first entry of the
  loaded list whose identifier is the argument: an entry of the list with that identifier
  when there is one, and the absent result otherwise, which is a value and not an error.
  \<^verbatim>\<open>getLatestReview\<close> returns the last entry of the loaded list, or the absent result on
  the empty list. Either method rejects only when the load does.
\<close>

theorem getReview_found_or_absent:
  "fst (getReview E i w)
     = (if storage_get_fails E (ios w) then Inl StorageFailure
        else Inr (find (\<lambda>r. id' r = i) (loaded w)))
   \<and> fst (getLatestReview E w)
     = (if storage_get_fails E (ios w) then Inl StorageFailure
        else Inr (if loaded w = [] then None else Some (last (loaded w))))
   \<and> (\<not> storage_get_fails E (ios w) \<longrightarrow>
        ((\<exists>r \<in> set (loaded w). id' r = i) \<longrightarrow>
           (\<exists>r. fst (getReview E i w) = Inr (Some r) \<and> r \<in> set (loaded w) \<and> id' r = i))
      \<and> ((\<forall>r \<in> set (loaded w). id' r \<noteq> i) \<longrightarrow> fst (getReview E i w) = Inr None))"
proof -
  have g: "fst (getReview E i w)
     = (if storage_get_fails E (ios w) then Inl StorageFailure
        else Inr (find (\<lambda>r. id' r = i) (loaded w)))"
    by (simp add: getReview_def initialize_cases loaded_def split: option.splits)
  have l: "fst (getLatestReview E w)
     = (if storage_get_fails E (ios w) then Inl StorageFailure
        else Inr (if loaded w = [] then None else Some (last (loaded w))))"
    by (simp add: getLatestReview_def initialize_cases loaded_def last_conv_nth
        split: option.splits)
  have s: "\<not> storage_get_fails E (ios w) \<longrightarrow> (\<exists>r \<in> set (loaded w). id' r = i) \<longrightarrow>
           (\<exists>r. fst (getReview E i w) = Inr (Some r) \<and> r \<in> set (loaded w) \<and> id' r = i)"
    using find_id_Some [of "loaded w" i] by (auto simp: g)
  have n: "\<not> storage_get_fails E (ios w) \<longrightarrow> (\<forall>r \<in> set (loaded w). id' r \<noteq> i) \<longrightarrow>
           fst (getReview E i w) = Inr None"
    by (simp add: g find_None_iff)
  from g l s n show ?thesis by blast
qed

theorem getReview_found_or_absent_witness:
  "fst (getReview env0 ''b'' w_evicted) = Inr (Some entry2)
   \<and> fst (getReview env0 ''zz'' w_evicted) = Inr None
   \<and> fst (getLatestReview env0 w_evicted) = Inr (Some entry2)
   \<and> fst (getLatestReview env0 w_new) = Inr None"
proof -
  have ok: "\<not> storage_get_fails env0 n" for n by (simp add: env0_def)
  have l: "loaded w_evicted = [entry1, entry2]" "loaded w_new = []"
    by (simp_all add: loaded_def w_evicted_def w_new_def constructor_def old_state_def)
  have i: "id' entry1 = ''a''" "id' entry2 = ''b''" by (simp_all add: entry1_def entry2_def)
  have y: "\<exists>r \<in> set (loaded w_evicted). id' r = ''b''"
    and n: "\<forall>r \<in> set (loaded w_evicted). id' r \<noteq> ''zz''"
    by (simp_all add: l i)
  from getReview_found_or_absent [of env0 "''b''" w_evicted] ok y
  have 1: "fst (getReview env0 ''b'' w_evicted) = Inr (Some entry2)
           \<and> fst (getLatestReview env0 w_evicted) = Inr (Some entry2)"
    by (simp add: l i)
  from getReview_found_or_absent [of env0 "''zz''" w_evicted] ok n
  have 2: "fst (getReview env0 ''zz'' w_evicted) = Inr None" by blast
  from getReview_found_or_absent [of env0 "''zz''" w_new] ok
  have 3: "fst (getLatestReview env0 w_new) = Inr None" by (simp add: l)
  from 1 2 3 show ?thesis by simp
qed

section \<open>Properties of the Worker\<close>

text \<open>
  Claim C3. On a submission with a JSON body, a success response carries the key of the
  session the request resolved to, and its flag \<^verbatim>\<open>isFollowUp\<close> is true exactly when the
  review list of that session was not empty when the request arrived. The inference
  service is called at most once, and with the system prompt and the prompt of the
  decision rule: the follow-up prompt on the review text of the last entry of that list
  when it is not empty, the initial prompt otherwise. When the fields are valid, the
  storage never rejects and the inference call does not fail, the response is that
  success response. The last three conjuncts give the text that is sent: on a list that
  is not empty it is the fixed opening, the review text of the last entry and of no
  other, then the language and the new code between the fences and the fixed closing
  sentence; on the empty list it is the text of the initial prompt.
\<close>

theorem follow_up_rule:
  assumes "path request = ''/api/review''" "method' request = ''POST''"
    and "body request = JsonObject b"
    and "fetch E request p = (resp, p')"
  shows "(\<forall>sid rv rid f t. resp = ResponseJson (ReviewResult sid rv rid f t) 200 \<longrightarrow>
            sid = sessionKey_of E b p
          \<and> (f \<longleftrightarrow> session_reviews (objects p sid) \<noteq> [])
          \<and> ai_log p' = ai_log p @
              [(SYSTEM_PROMPT, prompt_for (session_reviews (objects p sid)) b)])
    \<and> (ai_log p' = ai_log p
       \<or> ai_log p' = ai_log p @
            [(SYSTEM_PROMPT, prompt_for (session_reviews (objects p (sessionKey_of E b p))) b)])
    \<and> (\<not> falsy (rq_code b) \<and> \<not> falsy (rq_language b)
         \<and> (\<forall>n. \<not> storage_get_fails E n \<and> \<not> storage_put_fails E n)
         \<and> (\<forall>m. AI_run E (ai_calls p) SYSTEM_PROMPT
                  (prompt_for (session_reviews (objects p (sessionKey_of E b p))) b)
                \<noteq> AiError m)
        \<longrightarrow> (\<exists>rv rid t. resp = ResponseJson
               (ReviewResult (sessionKey_of E b p) rv rid
                  (session_reviews (objects p (sessionKey_of E b p)) \<noteq> []) t) 200))
    \<and> (\<forall>sid rv rid t. resp = ResponseJson (ReviewResult sid rv rid True t) 200 \<longrightarrow>
          ai_log p' = ai_log p @
            [(SYSTEM_PROMPT,
              ''Based on your previous review:\<newline>\<newline>'' @ review (last (session_reviews (objects p sid)))
                 @ ''\<newline>\<newline>The code has been updated to:\<newline>\<newline>```''
                 @ string_of (rq_language b) @ ''\<newline>'' @ string_of (rq_code b)
                 @ ''\<newline>```\<newline>\<newline>Please review the changes and confirm if the previous issues were addressed or if new issues have been introduced.'')])
    \<and> (session_reviews (objects p (sessionKey_of E b p)) \<noteq> [] \<longrightarrow>
          ai_log p' = ai_log p
        \<or> ai_log p' = ai_log p @
            [(SYSTEM_PROMPT,
              ''Based on your previous review:\<newline>\<newline>'' @ review (last (session_reviews (objects p (sessionKey_of E b p))))
                 @ ''\<newline>\<newline>The code has been updated to:\<newline>\<newline>```''
                 @ string_of (rq_language b) @ ''\<newline>'' @ string_of (rq_code b)
                 @ ''\<newline>```\<newline>\<newline>Please review the changes and confirm if the previous issues were addressed or if new issues have been introduced.'')])
    \<and> (session_reviews (objects p (sessionKey_of E b p)) = [] \<longrightarrow>
          ai_log p' = ai_log p
        \<or> ai_log p' = ai_log p @
            [(SYSTEM_PROMPT,
              ''Please review the following '' @ string_of (rq_language b)
                 @ '' code:\<newline>\<newline>```'' @ string_of (rq_language b) @ ''\<newline>''
                 @ string_of (rq_code b) @ ''\<newline>```\<newline>''
                 @ (if falsy (rq_context b) then []
                    else ''\<newline>Additional context: '' @ string_of (rq_context b) @ ''\<newline>'')
                 @ ''\<newline>Provide a comprehensive code review following the format specified in your system prompt.'')])"
proof -
  note H = submission_log [OF assms]
  let ?prior = "session_reviews (objects p (sessionKey_of E b p))"
  from H have 1: "\<forall>sid rv rid f t. resp = ResponseJson (ReviewResult sid rv rid f t) 200 \<longrightarrow>
            sid = sessionKey_of E b p
          \<and> (f \<longleftrightarrow> session_reviews (objects p sid) \<noteq> [])
          \<and> ai_log p' = ai_log p @
              [(SYSTEM_PROMPT, prompt_for (session_reviews (objects p sid)) b)]"
    by (rule conjunct1)
  from H have 2: "ai_log p' = ai_log p
       \<or> ai_log p' = ai_log p @ [(SYSTEM_PROMPT, prompt_for ?prior b)]"
    by blast
  have 4: "\<forall>sid rv rid t. resp = ResponseJson (ReviewResult sid rv rid True t) 200 \<longrightarrow>
          ai_log p' = ai_log p @
            [(SYSTEM_PROMPT,
              ''Based on your previous review:\<newline>\<newline>'' @ review (last (session_reviews (objects p sid)))
                 @ ''\<newline>\<newline>The code has been updated to:\<newline>\<newline>```''
                 @ string_of (rq_language b) @ ''\<newline>'' @ string_of (rq_code b)
                 @ ''\<newline>```\<newline>\<newline>Please review the changes and confirm if the previous issues were addressed or if new issues have been introduced.'')]"
  proof (intro allI impI)
    fix sid rv rid t
    assume r: "resp = ResponseJson (ReviewResult sid rv rid True t) 200"
    with 1 have n: "session_reviews (objects p sid) \<noteq> []"
      and l: "ai_log p' = ai_log p @
              [(SYSTEM_PROMPT, prompt_for (session_reviews (objects p sid)) b)]"
      by blast+
    from l show "ai_log p' = ai_log p @
            [(SYSTEM_PROMPT,
              ''Based on your previous review:\<newline>\<newline>'' @ review (last (session_reviews (objects p sid)))
                 @ ''\<newline>\<newline>The code has been updated to:\<newline>\<newline>```''
                 @ string_of (rq_language b) @ ''\<newline>'' @ string_of (rq_code b)
                 @ ''\<newline>```\<newline>\<newline>Please review the changes and confirm if the previous issues were addressed or if new issues have been introduced.'')]"
      by (simp only: prompt_for_follow_up [OF n])
  qed
  have 5: "?prior \<noteq> [] \<longrightarrow>
          ai_log p' = ai_log p
        \<or> ai_log p' = ai_log p @
            [(SYSTEM_PROMPT,
              ''Based on your previous review:\<newline>\<newline>'' @ review (last ?prior)
                 @ ''\<newline>\<newline>The code has been updated to:\<newline>\<newline>```''
                 @ string_of (rq_language b) @ ''\<newline>'' @ string_of (rq_code b)
                 @ ''\<newline>```\<newline>\<newline>Please review the changes and confirm if the previous issues were addressed or if new issues have been introduced.'')]"
  proof
    assume n: "?prior \<noteq> []"
    from 2 show "ai_log p' = ai_log p
        \<or> ai_log p' = ai_log p @
            [(SYSTEM_PROMPT,
              ''Based on your previous review:\<newline>\<newline>'' @ review (last ?prior)
                 @ ''\<newline>\<newline>The code has been updated to:\<newline>\<newline>```''
                 @ string_of (rq_language b) @ ''\<newline>'' @ string_of (rq_code b)
                 @ ''\<newline>```\<newline>\<newline>Please review the changes and confirm if the previous issues were addressed or if new issues have been introduced.'')]"
      by (simp only: prompt_for_follow_up [OF n])
  qed
  have 6: "?prior = [] \<longrightarrow>
          ai_log p' = ai_log p
        \<or> ai_log p' = ai_log p @
            [(SYSTEM_PROMPT,
              ''Please review the following '' @ string_of (rq_language b)
                 @ '' code:\<newline>\<newline>```'' @ string_of (rq_language b) @ ''\<newline>''
                 @ string_of (rq_code b) @ ''\<newline>```\<newline>''
                 @ (if falsy (rq_context b) then []
                    else ''\<newline>Additional context: '' @ string_of (rq_context b) @ ''\<newline>'')
                 @ ''\<newline>Provide a comprehensive code review following the format specified in your system prompt.'')]"
  proof
    assume e: "?prior = []"
    from 2 show "ai_log p' = ai_log p
        \<or> ai_log p' = ai_log p @
            [(SYSTEM_PROMPT,
              ''Please review the following '' @ string_of (rq_language b)
                 @ '' code:\<newline>\<newline>```'' @ string_of (rq_language b) @ ''\<newline>''
                 @ string_of (rq_code b) @ ''\<newline>```\<newline>''
                 @ (if falsy (rq_context b) then []
                    else ''\<newline>Additional context: '' @ string_of (rq_context b) @ ''\<newline>'')
                 @ ''\<newline>Provide a comprehensive code review following the format specified in your system prompt.'')]"
      by (simp only: e prompt_for_initial)
  qed
  from H 4 5 6 show ?thesis by (intro conjI) blast+
qed

theorem follow_up_rule_witness:
  "\<exists>rv rid t. fst (fetch env0 req_review p_one)
        = ResponseJson (ReviewResult ''s1'' rv rid True t) 200
     \<and> ai_log (snd (fetch env0 req_review p_one)) =
         [(SYSTEM_PROMPT,
           ''Based on your previous review:\<newline>\<newline>second\<newline>\<newline>The code has been updated to:\<newline>\<newline>```python\<newline>x = 3\<newline>```\<newline>\<newline>Please review the changes and confirm if the previous issues were addressed or if new issues have been introduced.'')]
     \<and> review entry1 = ''first'' \<and> review entry2 = ''second''
     \<and> session_reviews (objects p_one ''s1'') = [entry1, entry2]"
proof -
  have k: "sessionKey_of env0 req_body p_one = ''s1''"
    by (simp add: sessionKey_of_def or_uuid_def falsy_def string_of_def req_body_def)
  have s: "session_reviews (objects p_one ''s1'') = [entry1, entry2]"
    by (simp add: session_reviews_def p_one_def old_state_def)
  have e: "review entry1 = ''first''" "review entry2 = ''second''"
    by (simp_all add: entry1_def entry2_def)
  have h: "path req_review = ''/api/review''" "method' req_review = ''POST''"
    "body req_review = JsonObject req_body"
    "fetch env0 req_review p_one
       = (fst (fetch env0 req_review p_one), snd (fetch env0 req_review p_one))"
    by (simp_all add: req_review_def)
  have v: "\<not> falsy (rq_code req_body) \<and> \<not> falsy (rq_language req_body)
         \<and> (\<forall>n. \<not> storage_get_fails env0 n \<and> \<not> storage_put_fails env0 n)
         \<and> (\<forall>m. AI_run env0 (ai_calls p_one) SYSTEM_PROMPT
                  (prompt_for (session_reviews (objects p_one
                     (sessionKey_of env0 req_body p_one))) req_body) \<noteq> AiError m)"
    by (simp add: falsy_def req_body_def env0_def)
  have l: "ai_log p_one = []" by (simp add: p_one_def)
  note T = follow_up_rule [OF h, unfolded k s l]
  from T v [unfolded k s] obtain rv rid t where
    r: "fst (fetch env0 req_review p_one) = ResponseJson (ReviewResult ''s1'' rv rid True t) 200"
    by auto
  have c: "\<forall>sid rv rid t.
      fst (fetch env0 req_review p_one) = ResponseJson (ReviewResult sid rv rid True t) 200 \<longrightarrow>
      ai_log (snd (fetch env0 req_review p_one)) =
        [] @ [(SYSTEM_PROMPT,
           ''Based on your previous review:\<newline>\<newline>''
             @ review (last (session_reviews (objects p_one sid)))
             @ ''\<newline>\<newline>The code has been updated to:\<newline>\<newline>```''
             @ string_of (rq_language req_body) @ ''\<newline>'' @ string_of (rq_code req_body)
             @ ''\<newline>```\<newline>\<newline>Please review the changes and confirm if the previous issues were addressed or if new issues have been introduced.'')]"
    using follow_up_rule [OF h, unfolded l] by blast
  from c r have "ai_log (snd (fetch env0 req_review p_one)) =
         [(SYSTEM_PROMPT,
           ''Based on your previous review:\<newline>\<newline>second\<newline>\<newline>The code has been updated to:\<newline>\<newline>```python\<newline>x = 3\<newline>```\<newline>\<newline>Please review the changes and confirm if the previous issues were addressed or if new issues have been introduced.'')]"
    by (simp add: s e req_body_def string_of_def)
  with r s e show ?thesis by blast
qed

text \<open>
  Claim C5. On a submission with valid fields whose inference call fails, no review
  list of any session changes, and no storage operation is made beyond the load and the
  save of the read that precedes the call. The caller gets the generic error response
  with status 500: for the failure of the inference service when that read succeeded,
  and for the failed read otherwise, in which case the service is not called.
\<close>

theorem inference_failure_appends_nothing:
  assumes "path request = ''/api/review''" "method' request = ''POST''"
    and "body request = JsonObject b" "\<not> falsy (rq_code b)" "\<not> falsy (rq_language b)"
    and "\<forall>s u. AI_run E (ai_calls p) s u = AiError m"
    and "fetch E request p = (resp, p')"
  shows "(\<forall>k. session_reviews (objects p' k) = session_reviews (objects p k))
    \<and> (resp = ResponseJson (InternalError (InferenceFailure m)) 500
       \<or> resp = ResponseJson (InternalError SyntaxError) 500)
    \<and> (resp = ResponseJson (InternalError (InferenceFailure m)) 500 \<longleftrightarrow>
         \<not> storage_get_fails E (p_ios p) \<and> \<not> storage_put_fails E (Suc (p_ios p)))
    \<and> p_ios p' \<le> Suc (Suc (p_ios p))"
proof -
  obtain key p1 where k: "or_uuid E (rq_sessionId b) p = (key, p1)" by force
  obtain r1 p2 where f: "session_fetch E key
      \<lparr>do_path = ''/reviews'', do_method = ''GET'', do_body = None\<rparr> p1 = (r1, p2)" by force
  note o = or_uuid_frame [OF k]
  note s = session_fetch_reviews [OF f]
  note h = handleReviewRequest_valid [OF assms(3-5) k f]
  have ai: "AI_run E (ai_calls p2) s u = AiError m" for s u
    using assms(6) s(3) o by simp
  note F = fetch_review_route [OF assms(1,2), of E p]
  show ?thesis
  proof (cases "r1 = DoError StorageFailure")
    case True
    with h F assms(7) have e: "resp = ResponseJson (InternalError SyntaxError) 500" "p' = p2"
      by simp_all
    from True s(5) o have "storage_get_fails E (p_ios p) \<or> storage_put_fails E (Suc (p_ios p))"
      by auto
    with e s(1) o session_fetch_ios [OF f] show ?thesis by auto
  next
    case False
    with h F assms(7) ai
    have e: "resp = ResponseJson (InternalError (InferenceFailure m)) 500"
      "objects p' = objects p2" "p_ios p' = p_ios p2"
      by (simp_all add: ai_run_def)
    from False s(4,5) o
    have "\<not> storage_get_fails E (p_ios p) \<and> \<not> storage_put_fails E (Suc (p_ios p))"
      by auto
    with e s(1) o session_fetch_ios [OF f] show ?thesis by auto
  qed
qed

theorem inference_failure_appends_nothing_witness:
  "fst (fetch env_ai_fails req_review p_one)
     = ResponseJson (InternalError (InferenceFailure ''unavailable'')) 500
   \<and> session_reviews (objects (snd (fetch env_ai_fails req_review p_one)) ''s1'')
       = [entry1, entry2]"
proof -
  have h: "path req_review = ''/api/review''" "method' req_review = ''POST''"
    "body req_review = JsonObject req_body"
    "\<not> falsy (rq_code req_body)" "\<not> falsy (rq_language req_body)"
    "\<forall>s u. AI_run env_ai_fails (ai_calls p_one) s u = AiError ''unavailable''"
    "fetch env_ai_fails req_review p_one
       = (fst (fetch env_ai_fails req_review p_one), snd (fetch env_ai_fails req_review p_one))"
    by (simp_all add: req_review_def req_body_def falsy_def env_ai_fails_def)
  have ok: "\<not> storage_get_fails env_ai_fails n" "\<not> storage_put_fails env_ai_fails n" for n
    by (simp_all add: env_ai_fails_def env0_def)
  have s: "session_reviews (objects p_one ''s1'') = [entry1, entry2]"
    by (simp add: session_reviews_def p_one_def old_state_def)
  from inference_failure_appends_nothing [OF h] ok s show ?thesis by simp
qed

text \<open>
  Claim C7. A submission whose body lacks \<^verbatim>\<open>code\<close> or \<^verbatim>\<open>language\<close>, a listing without the
  query parameter \<^verbatim>\<open>sessionId\<close> and a clearing whose body lacks \<^verbatim>\<open>sessionId\<close> each get the
  validation response with status 400, and the whole platform is as before: no object is
  instantiated, no storage operation is made, and no session state changes.
\<close>

theorem validation_errors_leave_state:
  "(path request = ''/api/review'' \<and> method' request = ''POST'' \<and> body request = JsonObject b
      \<and> (rq_code b = None \<or> rq_language b = None) \<longrightarrow>
      fetch E request p =
        (ResponseJson (ErrorBody ''Missing required fields: code and language'') 400, p))
   \<and> (path request = ''/api/session/reviews'' \<and> method' request = ''GET''
      \<and> sessionId_param request = None \<longrightarrow>
      fetch E request p = (ResponseJson (ErrorBody ''Missing sessionId parameter'') 400, p))
   \<and> (path request = ''/api/session/clear'' \<and> method' request = ''POST''
      \<and> body request = JsonObject b \<and> rq_sessionId b = None \<longrightarrow>
      fetch E request p = (ResponseJson (ErrorBody ''Missing sessionId'') 400, p))"
  by (auto simp: fetch_def route_def handleReviewRequest_def handleGetReviews_def
      handleClearSession_def falsy_def)

theorem validation_errors_leave_state_witness:
  "fetch env0 req_missing_language p_one =
     (ResponseJson (ErrorBody ''Missing required fields: code and language'') 400, p_one)
   \<and> fetch env0 req_list_no_session p_one =
     (ResponseJson (ErrorBody ''Missing sessionId parameter'') 400, p_one)
   \<and> fetch env0 req_clear_no_session p_one =
     (ResponseJson (ErrorBody ''Missing sessionId'') 400, p_one)"
proof -
  from validation_errors_leave_state
    [of req_missing_language "req_body\<lparr>rq_language := None\<rparr>" env0 p_one]
  have 1: "fetch env0 req_missing_language p_one =
     (ResponseJson (ErrorBody ''Missing required fields: code and language'') 400, p_one)"
    by (simp add: req_missing_language_def req_review_def)
  from validation_errors_leave_state [of req_list_no_session _ env0 p_one]
  have 2: "fetch env0 req_list_no_session p_one =
     (ResponseJson (ErrorBody ''Missing sessionId parameter'') 400, p_one)"
    by (simp add: req_list_no_session_def)
  from validation_errors_leave_state
    [of req_clear_no_session "req_body\<lparr>rq_sessionId := None\<rparr>" env0 p_one]
  have 3: "fetch env0 req_clear_no_session p_one =
     (ResponseJson (ErrorBody ''Missing sessionId'') 400, p_one)"
    by (simp add: req_clear_no_session_def req_clear_def)
  from 1 2 3 show ?thesis by simp
qed

text \<open>
  Claim C10. A submission whose \<^verbatim>\<open>code\<close> or \<^verbatim>\<open>language\<close> is the empty string gets the
  validation response of a missing field, and the whole platform is as before.
\<close>

theorem empty_fields_are_missing:
  "path request = ''/api/review'' \<and> method' request = ''POST'' \<and> body request = JsonObject b
      \<and> (rq_code b = Some [] \<or> rq_language b = Some []) \<longrightarrow>
      fetch E request p =
        (ResponseJson (ErrorBody ''Missing required fields: code and language'') 400, p)"
  by (auto simp: fetch_def route_def handleReviewRequest_def falsy_def)

theorem empty_fields_are_missing_witness:
  "fetch env0 req_empty_code p_one =
     (ResponseJson (ErrorBody ''Missing required fields: code and language'') 400, p_one)"
  using empty_fields_are_missing [of req_empty_code "req_body\<lparr>rq_code := Some []\<rparr>" env0 p_one]
  by (simp add: req_empty_code_def req_review_def)

end
